theory Spec2Isabelle
  imports Complex_Main
begin

section \<open>Table-based data access: the chunked iterator and its caches\<close>

text \<open>
  A shallow embedding of the table-based iterator of the data access layer
  (\<^verbatim>\<open>TableConstDataIterator\<close>, \<^verbatim>\<open>TableDataIterator\<close>) and of the validity tests of the
  FEED and FIELD subtable handlers. Every member function that a property below is about is
  a HOL function on an explicit state record; an exception is a value \<open>Inl e\<close> of the sum
  type \<open>error + 'a\<close>.

  Conventions.
  \<^item> \<^verbatim>\<open>casacore::uInt\<close> quantities that count rows, channels and polarisations are \<open>nat\<close>; the
    conversions between \<^verbatim>\<open>int\<close> and \<^verbatim>\<open>uInt\<close> that the source performs are written out modulo
    \<open>2 ^ 32\<close>.
  \<^item> \<^verbatim>\<open>casacore::Double\<close> time stamps and frequencies are \<open>real\<close>; only comparisons and the
    channel arithmetic of \<^verbatim>\<open>getChannelRange\<close> are performed on them.
  \<^item> The library class \<^verbatim>\<open>casacore::TableIterator\<close> is represented by the list of groups
    that are still to be visited, the head being the group returned by \<^verbatim>\<open>table()\<close>;
    \<^verbatim>\<open>pastEnd()\<close> holds when that list is empty.
\<close>

subsection \<open>Errors\<close>

text \<open>
  One constructor for each kind of raise site of the modelled code:
  \<^item> \<open>SelectionError\<close>: the \<^verbatim>\<open>ASKAPCHECK\<close> of \<^verbatim>\<open>makeUniformDataDescID\<close> (channel selection
    extends beyond the channels available);
  \<^item> \<open>ShapeMismatchError\<close>: the two \<^verbatim>\<open>ASKAPTHROW(DataAccessError, ...)\<close> of \<^verbatim>\<open>fillCube\<close>
    (number of polarisations or channels not conformant);
  \<^item> \<open>ConsistencyError\<close>: the \<^verbatim>\<open>ASKAPCHECK\<close> of \<^verbatim>\<open>writeOriginalFlag\<close>;
  \<^item> \<open>UnknownMountError\<close>: the \<^verbatim>\<open>ASKAPTHROW\<close> of \<^verbatim>\<open>fillParallacticAngleCache\<close>, with the
    mount string and the antenna number of its message;
  \<^item> \<open>AssertError\<close>: a failed \<^verbatim>\<open>ASKAPASSERT\<close>;
  \<^item> \<open>CheckError\<close>: any other failed \<^verbatim>\<open>ASKAPCHECK\<close>;
  \<^item> \<open>DataAccessError\<close>: any other \<^verbatim>\<open>ASKAPTHROW(DataAccessError, ...)\<close>;
  \<^item> \<open>ArrayError\<close>: an exception of the array library (index or slice out of range).
\<close>

datatype error =
    SelectionError
  | ShapeMismatchError
  | ConsistencyError
  | UnknownMountError string nat
  | AssertError
  | CheckError
  | DataAccessError
  | ArrayError

subsection \<open>Rows and tables\<close>

text \<open>
  A cell of an array column: its shape (\<^verbatim>\<open>IPosition\<close>) and its elements, \<open>arr_data a ! pol ! chan\<close>
  being the element \<^verbatim>\<open>(pol, chan)\<close>.
\<close>

record 'a arr =
  arr_shape :: "nat list"
  arr_data :: "'a list list"

record row =
  TIME :: real
  DATA_DESC_ID :: int
  FIELD_ID :: int
  FLAG_ROW :: bool
  DATA :: "complex arr"
  FLAG :: "bool arr"

text \<open>The main table: its rows and which of the optional columns exist.\<close>

record dataset =
  ms_rows :: "row list"
  ms_has_FIELD_ID :: bool
  ms_has_FLAG_ROW :: bool

text \<open>
  \<^verbatim>\<open>TableIterator(table, "TIME", Ascending, NoSort)\<close>: the table is not sorted, and each step
  returns the next run of consecutive rows with the same \<^verbatim>\<open>TIME\<close>.
\<close>

function timeGroups :: "row list \<Rightarrow> row list list" where
  "timeGroups [] = []"
| "timeGroups (r # rs) =
     (r # takeWhile (\<lambda>x. TIME x = TIME r) rs) # timeGroups (dropWhile (\<lambda>x. TIME x = TIME r) rs)"
  by pat_completeness auto
termination
  by (relation "measure length") (auto simp: length_dropWhile_le less_Suc_eq_le)

subsection \<open>The selector and the collaborators\<close>

text \<open>
  The selector as the iterator sees it (\<^verbatim>\<open>ITableDataSelectorImpl\<close>): the table expression
  (\<open>None\<close> for a null expression node), the channel selection pair (number of channels, start
  channel), and the frequency selection: whether one is active and its number of channels.
\<close>

record selector =
  getTableSelector :: "(row \<Rightarrow> bool) option"
  itsChannelSelection :: "int \<times> int"
  frequenciesSelected :: bool
  itsNFreq :: int

text \<open>
  Modelled from the spec: the bodies of \<^verbatim>\<open>TableDataSelector::chooseChannels\<close>,
  \<^verbatim>\<open>channelsSelected\<close> and \<^verbatim>\<open>getChannelSelection\<close> are not among the sources. The class
  declaration documents them: the selector "doesn't care about the meaning of these two
  numbers and just passes them across", and "if the first field is negative, no channel-based
  selection has been defined".
\<close>

definition int_of_uInt :: "nat \<Rightarrow> int" where
  "int_of_uInt n = (let v = int n mod 2 ^ 32 in if v < 2 ^ 31 then v else v - 2 ^ 32)"

definition uInt_of_int :: "int \<Rightarrow> nat" where
  "uInt_of_int i = nat (i mod 2 ^ 32)"

definition chooseChannels :: "nat \<Rightarrow> nat \<Rightarrow> selector \<Rightarrow> selector" where
  "chooseChannels nChan start sel = sel\<lparr>itsChannelSelection := (int_of_uInt nChan, int_of_uInt start)\<rparr>"

definition channelsSelected :: "selector \<Rightarrow> bool" where
  "channelsSelected sel = (0 \<le> fst (itsChannelSelection sel))"

definition getChannelSelection :: "selector \<Rightarrow> int \<times> int" where
  "getChannelSelection sel = itsChannelSelection sel"

text \<open>
  The answers of the metadata collaborators that the iterator consults (data description,
  antenna, feed, field and spectral window subtables). Their own caches are outside this
  part of the development; an answer is a function of the epoch and the spectral window
  asked for. \<open>feed_allBeamOffsetsZero\<close> is \<open>None\<close> when the FEED lookup raises its
  \<^verbatim>\<open>DataAccessError\<close>. \<open>meas_requiredFreq\<close> stands for lines 963 to 981 of
  \<^verbatim>\<open>getChannelRange\<close>: the frequency of the selection converted by the measures library to
  the frame of the data at the given epoch and data description. On the way
  \<^verbatim>\<open>getCurrentReferenceDir\<close> raises by its \<^verbatim>\<open>ASKAPCHECK\<close> when the field id is negative, and the
  subtable lookups raise a \<^verbatim>\<open>DataAccessError\<close>.
\<close>

datatype lookupFailure = NegativeFieldID | LookupFailed

definition lookupError :: "lookupFailure \<Rightarrow> error" where
  "lookupError f = (case f of NegativeFieldID \<Rightarrow> CheckError | LookupFailed \<Rightarrow> DataAccessError)"


record collab =
  dd_getSpectralWindowID :: "int \<Rightarrow> int"
  antenna_allEquatorial :: bool
  field_newField :: "real \<Rightarrow> bool"
  feed_newBeamDetails :: "real \<Rightarrow> nat \<Rightarrow> bool"
  feed_allBeamOffsetsZero :: "real \<Rightarrow> nat \<Rightarrow> bool option"
  spw_getFrequencies :: "nat \<Rightarrow> real list"
  meas_requiredFreq :: "real \<Rightarrow> int \<Rightarrow> lookupFailure + real"

subsection \<open>The state of the iterator\<close>

record iter =
  itsMaxChunkSize :: nat
  itsTabIterator :: "row list list"
  itsCurrentIteration :: "row list"
  itsCurrentTopRow :: nat
  itsNumberOfRows :: nat
  itsNumberOfChannels :: nat
  itsNumberOfPols :: nat
  itsCurrentDataDescID :: int
  itsCurrentFieldID :: int
  itsUseFieldID :: bool
  itsDirectionCacheValid :: bool
  itsParallacticAngleCacheValid :: bool
  itsDishPointingCacheValid :: bool
  accIterationCachesValid :: bool
  accSpectralCachesValid :: bool
  accRotatedUVWValid :: bool
  itsNumberOfChannelsSelected :: nat
  itsStartChannelSelected :: nat
  itsChannelsSelected :: bool
  itsFlagData :: bool
  itsAtStart :: bool

definition pastEnd :: "iter \<Rightarrow> bool" where
  "pastEnd st = (itsTabIterator st = [])"

text \<open>\<^verbatim>\<open>itsTabIterator.table()\<close>: the current group, an empty table past the end.\<close>

definition tabIteratorTable :: "iter \<Rightarrow> row list" where
  "tabIteratorTable st = (case itsTabIterator st of [] \<Rightarrow> [] | g # _ \<Rightarrow> g)"

definition hasMore :: "iter \<Rightarrow> bool" where
  "hasMore st =
     (if \<not> pastEnd st then True
      else if itsCurrentTopRow st + itsNumberOfRows st < length (itsCurrentIteration st) then True
      else False)"

text \<open>The rows of the chunk that the accessor presents: \<open>[topRow, topRow + numRows)\<close>.\<close>

definition currentChunk :: "iter \<Rightarrow> row list" where
  "currentChunk st = take (itsNumberOfRows st) (drop (itsCurrentTopRow st) (itsCurrentIteration st))"

definition currentEpoch :: "iter \<Rightarrow> real" where
  "currentEpoch st = TIME (itsCurrentIteration st ! itsCurrentTopRow st)"

definition currentSpWindowID :: "collab \<Rightarrow> iter \<Rightarrow> error + nat" where
  "currentSpWindowID env st =
     (let spWindowIndex = dd_getSpectralWindowID env (itsCurrentDataDescID st)
      in if spWindowIndex < 0 then Inl DataAccessError else Inr (nat spWindowIndex))"

subsection \<open>Chunk uniformity\<close>

text \<open>
  The loop shared by \<^verbatim>\<open>makeUniformDataDescID\<close> and \<^verbatim>\<open>makeUniformFieldID\<close>:
  \<^verbatim>\<open>for (row = 1; row < itsNumberOfRows; ++row) if (col(row + topRow) != current) { itsNumberOfRows = row; break; }\<close>.
  The result is the new \<^verbatim>\<open>itsNumberOfRows\<close>.
\<close>

function scanUniform :: "(row \<Rightarrow> int) \<Rightarrow> row list \<Rightarrow> nat \<Rightarrow> int \<Rightarrow> nat \<Rightarrow> nat \<Rightarrow> nat" where
  "scanUniform col tab topRow cur n i =
     (if i < n then
        (if col (tab ! (i + topRow)) \<noteq> cur then i else scanUniform col tab topRow cur n (Suc i))
      else n)"
  by pat_completeness auto
termination
  by (relation "measure (\<lambda>(col, tab, topRow, cur, n, i). n - i)") auto

declare scanUniform.simps [simp del]

text \<open>
  Lines 611 to 627 of \<^verbatim>\<open>makeUniformDataDescID\<close>: with a valid direction cache, a new data
  description invalidates it when the beam details are new and some beam offset is not zero.
\<close>

definition invalidateOnNewBeam :: "collab \<Rightarrow> iter \<Rightarrow> error + iter" where
  "invalidateOnNewBeam env st =
     (if itsDirectionCacheValid st then
        (case currentSpWindowID env st of
           Inl e \<Rightarrow> Inl e
         | Inr spWindow \<Rightarrow>
             (case feed_allBeamOffsetsZero env (currentEpoch st) spWindow of
                None \<Rightarrow> Inl DataAccessError
              | Some allZero \<Rightarrow>
                  if \<not> allZero \<and> feed_newBeamDetails env (currentEpoch st) spWindow
                  then Inr (st\<lparr>itsDirectionCacheValid := False, accRotatedUVWValid := False\<rparr>)
                  else Inr st))
      else Inr st)"

text \<open>The number of channels that a cell shape stands for: \<^verbatim>\<open>shape.size() > 1 ? shape[1] : 1\<close>.\<close>

definition shapeChannels :: "nat list \<Rightarrow> nat" where
  "shapeChannels shape = (if length shape > 1 then shape ! 1 else 1)"

definition shapeValid :: "nat list \<Rightarrow> bool" where
  "shapeValid shape = (length shape \<noteq> 0 \<and> length shape < 3)"

text \<open>
  Lines 608 to 644: the work done when the data description of the top row differs from the
  current one.
\<close>

definition newDataDesc :: "selector \<Rightarrow> collab \<Rightarrow> int \<Rightarrow> iter \<Rightarrow> error + iter" where
  "newDataDesc sel env newDataDescID st =
     (case invalidateOnNewBeam env
             (st\<lparr>accSpectralCachesValid := False, itsCurrentDataDescID := newDataDescID\<rparr>) of
        Inl e \<Rightarrow> Inl e
      | Inr st2 \<Rightarrow>
          (let shape = arr_shape (DATA (itsCurrentIteration st2 ! itsCurrentTopRow st2))
           in if \<not> shapeValid shape then Inl AssertError
              else
                (let st3 = st2\<lparr>itsNumberOfPols := shape ! 0, itsNumberOfChannels := shapeChannels shape\<rparr>
                 in if channelsSelected sel \<and>
                       \<not> (itsNumberOfChannels st3 \<ge>
                            uInt_of_int (fst (getChannelSelection sel) + snd (getChannelSelection sel)))
                    then Inl SelectionError
                    else Inr st3)))"

definition makeUniformDataDescID :: "selector \<Rightarrow> collab \<Rightarrow> iter \<Rightarrow> error + iter" where
  "makeUniformDataDescID sel env st =
     (let newDataDescID = DATA_DESC_ID (itsCurrentIteration st ! itsCurrentTopRow st)
      in case (if itsCurrentDataDescID st \<noteq> newDataDescID then newDataDesc sel env newDataDescID st
               else Inr st) of
           Inl e \<Rightarrow> Inl e
         | Inr st4 \<Rightarrow>
             (let st5 = (if frequenciesSelected sel then st4\<lparr>itsChannelsSelected := False\<rparr> else st4)
              in Inr (st5\<lparr>itsNumberOfRows :=
                           scanUniform DATA_DESC_ID (itsCurrentIteration st5) (itsCurrentTopRow st5)
                             (itsCurrentDataDescID st5) (itsNumberOfRows st5) 1\<rparr>)))"

definition makeUniformFieldID :: "iter \<Rightarrow> iter" where
  "makeUniformFieldID st =
     (if itsUseFieldID st then
        (let newFieldID = FIELD_ID (itsCurrentIteration st ! itsCurrentTopRow st);
             st1 = (if newFieldID \<noteq> itsCurrentFieldID st
                    then st\<lparr>itsCurrentFieldID := newFieldID, itsDirectionCacheValid := False,
                            accRotatedUVWValid := False, itsParallacticAngleCacheValid := False,
                            itsDishPointingCacheValid := False\<rparr>
                    else st)
         in st1\<lparr>itsNumberOfRows :=
                  scanUniform FIELD_ID (itsCurrentIteration st1) (itsCurrentTopRow st1)
                    (itsCurrentFieldID st1) (itsNumberOfRows st1) 1\<rparr>)
      else st)"

subsection \<open>Restart and advance\<close>

definition setUpIteration :: "selector \<Rightarrow> collab \<Rightarrow> iter \<Rightarrow> error + iter" where
  "setUpIteration sel env st0 =
     (let st = st0\<lparr>itsCurrentIteration := tabIteratorTable st0, accIterationCachesValid := False\<rparr>;
          st1 = st\<lparr>itsNumberOfRows :=
                     (if length (itsCurrentIteration st) \<le> itsMaxChunkSize st
                      then length (itsCurrentIteration st) else itsMaxChunkSize st)\<rparr>;
          extra =
            (if (itsDirectionCacheValid st1 \<or> itsParallacticAngleCacheValid st1)
                \<and> itsCurrentDataDescID st1 \<ge> 0 then
               (case currentSpWindowID env st1 of
                  Inl e \<Rightarrow> Inl e
                | Inr spWindow \<Rightarrow>
                    (let epoch = currentEpoch st1;
                         newField = (if itsUseFieldID st1 then False else field_newField env epoch);
                         st2 = (if newField \<or> \<not> antenna_allEquatorial env
                                then st1\<lparr>itsParallacticAngleCacheValid := False\<rparr> else st1)
                     in if newField then
                          Inr (st2\<lparr>itsDirectionCacheValid := False, accRotatedUVWValid := False,
                                   itsDishPointingCacheValid := False\<rparr>)
                        else if \<not> antenna_allEquatorial env \<or> feed_newBeamDetails env epoch spWindow then
                          (case feed_allBeamOffsetsZero env epoch spWindow of
                             None \<Rightarrow> Inl DataAccessError
                           | Some allZero \<Rightarrow>
                               if \<not> allZero
                               then Inr (st2\<lparr>itsDirectionCacheValid := False, accRotatedUVWValid := False\<rparr>)
                               else Inr st2)
                        else Inr st2))
             else Inr st1)
      in case extra of
           Inl e \<Rightarrow> Inl e
         | Inr st3 \<Rightarrow>
             if itsNumberOfRows st3 \<noteq> 0 then
               (case makeUniformDataDescID sel env st3 of
                  Inl e \<Rightarrow> Inl e
                | Inr st4 \<Rightarrow> Inr (makeUniformFieldID st4))
             else
               Inr (st3\<lparr>itsNumberOfChannels := 0, itsNumberOfPols := 0,
                        itsCurrentDataDescID := - 100, itsCurrentFieldID := - 100,
                        itsDirectionCacheValid := False, accRotatedUVWValid := False,
                        itsParallacticAngleCacheValid := False, itsDishPointingCacheValid := False\<rparr>))"

text \<open>
  \<^verbatim>\<open>TableConstDataIterator::init\<close>. The selected table is the main table when the expression
  node is null, the rows that satisfy the expression otherwise.
\<close>

definition selectedRows :: "dataset \<Rightarrow> selector \<Rightarrow> row list" where
  "selectedRows ds sel =
     (case getTableSelector sel of None \<Rightarrow> ms_rows ds | Some p \<Rightarrow> filter p (ms_rows ds))"

definition init :: "dataset \<Rightarrow> selector \<Rightarrow> collab \<Rightarrow> iter \<Rightarrow> error + iter" where
  "init ds sel env st =
     (if \<not> itsAtStart st then
        (case setUpIteration sel env
                (st\<lparr>itsCurrentTopRow := 0, itsCurrentDataDescID := - 100, itsCurrentFieldID := - 100,
                    itsUseFieldID := ms_has_FIELD_ID ds,
                    itsTabIterator := timeGroups (selectedRows ds sel),
                    itsChannelsSelected := False, itsFlagData := False\<rparr>) of
           Inl e \<Rightarrow> Inl e
         | Inr st1 \<Rightarrow> Inr (st1\<lparr>itsAtStart := True\<rparr>))
      else Inr st)"

text \<open>
  \<^verbatim>\<open>TableConstDataIterator::next\<close>. The result is the new state; the value that the member
  function returns is \<open>hasMore\<close> of it.
\<close>

definition next_chunk :: "selector \<Rightarrow> collab \<Rightarrow> iter \<Rightarrow> error + iter" where
  "next_chunk sel env st0 =
     (let st = st0\<lparr>itsAtStart := False, itsCurrentTopRow := itsCurrentTopRow st0 + itsNumberOfRows st0\<rparr>
      in if itsCurrentTopRow st \<ge> length (itsCurrentIteration st) then
           (let st1 = st\<lparr>itsCurrentTopRow := 0, itsTabIterator := tl (itsTabIterator st)\<rparr>
            in if \<not> pastEnd st1 then setUpIteration sel env st1 else Inr st1)
         else
           (let remainder = length (itsCurrentIteration st) - itsCurrentTopRow st;
                st1 = st\<lparr>itsNumberOfRows := (if remainder \<le> itsMaxChunkSize st then remainder
                                             else itsMaxChunkSize st),
                         accIterationCachesValid := False\<rparr>
            in case makeUniformDataDescID sel env st1 of
                 Inl e \<Rightarrow> Inl e
               | Inr st2 \<Rightarrow> Inr (makeUniformFieldID st2)))"

text \<open>
  The consumer's loop \<^verbatim>\<open>for (it.init(); it.hasMore(); it.next())\<close>, collecting the chunk
  delivered at each step. The first argument bounds the number of steps; \<open>None\<close> means that
  the bound was reached before \<^verbatim>\<open>hasMore()\<close> became false.
\<close>

fun deliver :: "nat \<Rightarrow> selector \<Rightarrow> collab \<Rightarrow> iter \<Rightarrow> (error + row list list) option" where
  "deliver 0 sel env st = None"
| "deliver (Suc n) sel env st =
     (if hasMore st then
        (case next_chunk sel env st of
           Inl e \<Rightarrow> Some (Inl e)
         | Inr st' \<Rightarrow>
             (case deliver n sel env st' of
                None \<Rightarrow> None
              | Some (Inl e) \<Rightarrow> Some (Inl e)
              | Some (Inr cs) \<Rightarrow> Some (Inr (currentChunk st # cs))))
      else Some (Inr []))"

definition iterate :: "nat \<Rightarrow> dataset \<Rightarrow> selector \<Rightarrow> collab \<Rightarrow> iter \<Rightarrow> (error + row list list) option" where
  "iterate fuel ds sel env st =
     (case init ds sel env st of Inl e \<Rightarrow> Some (Inl e) | Inr st1 \<Rightarrow> deliver fuel sel env st1)"

text \<open>
  The state in which the constructor leaves the members before it calls \<^verbatim>\<open>init()\<close>:
  \<^verbatim>\<open>itsAtStart\<close> is false and the caches, never filled, are invalid; the remaining members are
  not initialised by the constructor and are overwritten by \<^verbatim>\<open>init()\<close> before they are read.
\<close>

definition constructed :: "nat \<Rightarrow> iter" where
  "constructed maxChunkSize =
     \<lparr>itsMaxChunkSize = maxChunkSize, itsTabIterator = [], itsCurrentIteration = [],
      itsCurrentTopRow = 0, itsNumberOfRows = 0, itsNumberOfChannels = 0, itsNumberOfPols = 0,
      itsCurrentDataDescID = 0, itsCurrentFieldID = 0, itsUseFieldID = False,
      itsDirectionCacheValid = False, itsParallacticAngleCacheValid = False,
      itsDishPointingCacheValid = False, accIterationCachesValid = False,
      accSpectralCachesValid = False, accRotatedUVWValid = False,
      itsNumberOfChannelsSelected = 0, itsStartChannelSelected = 0,
      itsChannelsSelected = False, itsFlagData = False, itsAtStart = False\<rparr>"

subsection \<open>The selected range of channels\<close>

text \<open>
  \<^verbatim>\<open>std::lrint\<close> in the default rounding mode: to the nearest integer, a tie to the even one.
  The result is stored in an \<^verbatim>\<open>int\<close>; \<open>int32_of_int\<close> is that conversion.
\<close>

definition lrint :: "real \<Rightarrow> int" where
  "lrint x =
     (let f = \<lfloor>x\<rfloor>; d = x - of_int f
      in if d < 1 / 2 then f else if 1 / 2 < d then f + 1 else if even f then f else f + 1)"

definition int32_of_int :: "int \<Rightarrow> int" where
  "int32_of_int i = (let v = i mod 2 ^ 32 in if v < 2 ^ 31 then v else v - 2 ^ 32)"

text \<open>
  Lines 985 to 1004: the channel nearest to the required frequency on a linear axis. The
  result is the start channel and the value of \<^verbatim>\<open>itsFlagData\<close>. In
  \<^verbatim>\<open>nearestChannel >= nFreq\<close> the left operand is an \<^verbatim>\<open>int\<close> and the right one a \<^verbatim>\<open>uint\<close>, so
  the comparison is made on the unsigned conversion of the former.
\<close>

definition nearestChannelOf :: "real \<Rightarrow> real list \<Rightarrow> int" where
  "nearestChannelOf requiredFreq dataFreqs =
     int32_of_int (lrint ((requiredFreq - dataFreqs ! 0) / (dataFreqs ! 1 - dataFreqs ! 0)))"

definition axisLinear :: "real list \<Rightarrow> bool" where
  "axisLinear dataFreqs =
     (let nFreq = length dataFreqs; freqInc = dataFreqs ! 1 - dataFreqs ! 0
      in \<bar>(dataFreqs ! (nFreq - 1) - dataFreqs ! 0) / (real (nFreq - 1) * freqInc) - 1\<bar> < 1 / 1000)"

definition selectFrequency :: "real \<Rightarrow> real list \<Rightarrow> error + nat \<times> bool" where
  "selectFrequency requiredFreq dataFreqs =
     (let nFreq = length dataFreqs
      in if nFreq > 1 then
           (if \<not> axisLinear dataFreqs then Inl CheckError
            else
              (let nearestChannel = nearestChannelOf requiredFreq dataFreqs
               in if nearestChannel \<ge> 0 \<and> uInt_of_int nearestChannel < nFreq
                  then Inr (uInt_of_int nearestChannel, False)
                  else if uInt_of_int nearestChannel \<ge> nFreq then Inr (nFreq - 1, True)
                  else Inr (0, True)))
         else Inr (0, True))"

text \<open>
  \<^verbatim>\<open>getChannelRange\<close>: the new state (the members it changes are \<^verbatim>\<open>mutable\<close>) and the pair
  (number of channels, first channel). \<^verbatim>\<open>nChannel()\<close> and \<^verbatim>\<open>startChannel()\<close> are its two
  components.
\<close>

definition getChannelRange :: "selector \<Rightarrow> collab \<Rightarrow> iter \<Rightarrow> error + iter \<times> nat \<times> nat" where
  "getChannelRange sel env st =
     (if \<not> itsChannelsSelected st then
        (if frequenciesSelected sel then
           (if \<not> itsNFreq sel \<le> 1 then Inl CheckError
            else
              (case meas_requiredFreq env (currentEpoch st) (itsCurrentDataDescID st) of
                 Inl f \<Rightarrow> Inl (lookupError f)
               | Inr requiredFreq \<Rightarrow>
                   (case currentSpWindowID env st of
                      Inl e \<Rightarrow> Inl e
                    | Inr spWindow \<Rightarrow>
                        (case selectFrequency requiredFreq (spw_getFrequencies env spWindow) of
                           Inl e \<Rightarrow> Inl e
                         | Inr (startChan, flagData) \<Rightarrow>
                             Inr (st\<lparr>itsFlagData := flagData, itsNumberOfChannelsSelected := 1,
                                     itsStartChannelSelected := startChan, itsChannelsSelected := True\<rparr>,
                                  1, startChan)))))
         else
           (let chanSelection = getChannelSelection sel;
                n = (if channelsSelected sel then uInt_of_int (fst chanSelection)
                     else itsNumberOfChannels st);
                start = (if channelsSelected sel then uInt_of_int (snd chanSelection) else 0)
            in Inr (st\<lparr>itsFlagData := False, itsNumberOfChannelsSelected := n,
                       itsStartChannelSelected := start, itsChannelsSelected := True\<rparr>,
                    n, start)))
      else Inr (st, itsNumberOfChannelsSelected st, itsStartChannelSelected st))"

subsection \<open>Cubes and the cube fillers\<close>

text \<open>
  A \<^verbatim>\<open>casacore::Cube\<close> of shape \<open>nrow \<times> ncolumn \<times> nplane\<close>; \<open>cube_data c ! row ! chan ! pol\<close> is the
  element \<^verbatim>\<open>(row, chan, pol)\<close>.
\<close>

record 'a cube =
  nrow :: nat
  ncolumn :: nat
  nplane :: nat
  cube_data :: "'a list list list"

text \<open>
  \<^verbatim>\<open>resize\<close> keeps a cube that has the shape asked for. Otherwise the storage is new, and
  the argument \<open>fresh\<close> stands for what it holds before it is written.
\<close>

definition resizeCube :: "'a \<Rightarrow> nat \<Rightarrow> nat \<Rightarrow> nat \<Rightarrow> 'a cube \<Rightarrow> 'a cube" where
  "resizeCube fresh nr nc np c =
     (if nrow c = nr \<and> ncolumn c = nc \<and> nplane c = np then c
      else \<lparr>nrow = nr, ncolumn = nc, nplane = np,
            cube_data = replicate nr (replicate nc (replicate np fresh))\<rparr>)"

text \<open>\<^verbatim>\<open>cube.yzPlane(row) = v\<close>; the array library raises when the plane does not exist.\<close>

definition setYZPlane :: "nat \<Rightarrow> 'a \<Rightarrow> 'a cube \<Rightarrow> error + 'a cube" where
  "setYZPlane r v c =
     (if r \<ge> nrow c then Inl ArrayError
      else Inr (c\<lparr>cube_data := (cube_data c)[r := replicate (ncolumn c) (replicate (nplane c) v)]\<rparr>))"

text \<open>
  \<^verbatim>\<open>tableCol.getSlice(row, Slicer(Slice(), Slice(startChan, nChan)), buf, False)\<close> into a buffer
  of shape \<open>nPol \<times> nChan\<close>: the array library raises when the slicer does not fit the cell, or
  when the slice has not the shape of the buffer.
\<close>

definition getSlice :: "'a arr \<Rightarrow> nat \<Rightarrow> nat \<Rightarrow> nat \<Rightarrow> error + 'a list list" where
  "getSlice cell startChan nChan nPol =
     (let shape = arr_shape cell
      in if length shape = 2 \<and> shape ! 0 = nPol \<and> startChan + nChan \<le> shape ! 1
         then Inr (map (\<lambda>pol. take nChan (drop startChan (arr_data cell ! pol))) [0..<nPol])
         else Inl ArrayError)"

text \<open>
  The two versions of \<^verbatim>\<open>WholeRowFlagger<T>::copyRequired\<close>: the primary template, and the
  specialisation for \<^verbatim>\<open>casacore::Bool\<close>, which holds the \<^verbatim>\<open>FLAG_ROW\<close> column of the iteration.
  The result is the value returned and the cube, which the specialisation may have written.
\<close>

definition copyRequired :: "nat \<Rightarrow> 'a cube \<Rightarrow> error + bool \<times> 'a cube" where
  "copyRequired r c = Inr (True, c)"

definition copyRequired_Bool :: "bool \<Rightarrow> row list \<Rightarrow> nat \<Rightarrow> bool cube \<Rightarrow> error + bool \<times> bool cube" where
  "copyRequired_Bool itsHasFlagRow iteration r c =
     (if itsHasFlagRow then
        (if FLAG_ROW (iteration ! r) then
           (case setYZPlane r True c of Inl e \<Rightarrow> Inl e | Inr c' \<Rightarrow> Inr (False, c'))
         else Inr (True, c))
      else Inr (True, c))"

text \<open>
  One turn of the loop over the rows in \<^verbatim>\<open>fillCube\<close>. The two inner loops assign every element
  \<^verbatim>\<open>cube(row, chan, pol) = buf(pol, chan)\<close> of the row, which is written here as one update of
  the row.
\<close>

definition fillCubeRow ::
  "(row \<Rightarrow> 'a arr) \<Rightarrow> (nat \<Rightarrow> 'a cube \<Rightarrow> error + bool \<times> 'a cube) \<Rightarrow> iter \<Rightarrow> nat \<Rightarrow> nat \<Rightarrow>
   nat \<Rightarrow> 'a cube \<Rightarrow> error + 'a cube" where
  "fillCubeRow tableCol wrFlagger st nChan startChan r c =
     (let shape = arr_shape (tableCol (itsCurrentIteration st ! r))
      in if \<not> shapeValid shape then Inl AssertError
         else if shape ! 0 \<noteq> itsNumberOfPols st then Inl ShapeMismatchError
         else if shapeChannels shape \<noteq> itsNumberOfChannels st then Inl ShapeMismatchError
         else
           (case wrFlagger (r + itsCurrentTopRow st) c of
              Inl e \<Rightarrow> Inl e
            | Inr (required, c1) \<Rightarrow>
                if required then
                  (case getSlice (tableCol (itsCurrentIteration st ! (r + itsCurrentTopRow st)))
                          startChan nChan (itsNumberOfPols st) of
                     Inl e \<Rightarrow> Inl e
                   | Inr buf \<Rightarrow>
                       Inr (c1\<lparr>cube_data := (cube_data c1)
                              [r := map (\<lambda>chan. map (\<lambda>pol. buf ! pol ! chan) [0..<itsNumberOfPols st])
                                      [0..<nChan]]\<rparr>))
                else Inr c1))"

fun fillCubeRows ::
  "(row \<Rightarrow> 'a arr) \<Rightarrow> (nat \<Rightarrow> 'a cube \<Rightarrow> error + bool \<times> 'a cube) \<Rightarrow> iter \<Rightarrow> nat \<Rightarrow> nat \<Rightarrow>
   nat list \<Rightarrow> 'a cube \<Rightarrow> error + 'a cube" where
  "fillCubeRows tableCol wrFlagger st nChan startChan [] c = Inr c"
| "fillCubeRows tableCol wrFlagger st nChan startChan (r # rs) c =
     (case fillCubeRow tableCol wrFlagger st nChan startChan r c of
        Inl e \<Rightarrow> Inl e
      | Inr c' \<Rightarrow> fillCubeRows tableCol wrFlagger st nChan startChan rs c')"

definition fillCube ::
  "(row \<Rightarrow> 'a arr) \<Rightarrow> (nat \<Rightarrow> 'a cube \<Rightarrow> error + bool \<times> 'a cube) \<Rightarrow> 'a \<Rightarrow> selector \<Rightarrow> collab \<Rightarrow>
   iter \<Rightarrow> 'a cube \<Rightarrow> error + iter \<times> 'a cube" where
  "fillCube tableCol wrFlagger fresh sel env st c =
     (case getChannelRange sel env st of
        Inl e \<Rightarrow> Inl e
      | Inr (st1, nChan, startChan) \<Rightarrow>
          (case fillCubeRows tableCol wrFlagger st1 nChan startChan [0..<itsNumberOfRows st1]
                  (resizeCube fresh (itsNumberOfRows st1) nChan (itsNumberOfPols st1) c) of
             Inl e \<Rightarrow> Inl e
           | Inr c' \<Rightarrow> Inr (st1, c')))"

definition fillVisibility ::
  "complex \<Rightarrow> selector \<Rightarrow> collab \<Rightarrow> iter \<Rightarrow> complex cube \<Rightarrow> error + iter \<times> complex cube" where
  "fillVisibility fresh sel env st vis = fillCube DATA copyRequired fresh sel env st vis"

definition fillFlag ::
  "dataset \<Rightarrow> bool \<Rightarrow> selector \<Rightarrow> collab \<Rightarrow> iter \<Rightarrow> bool cube \<Rightarrow> error + iter \<times> bool cube" where
  "fillFlag ds fresh sel env st flag =
     (case fillCube FLAG (copyRequired_Bool (ms_has_FLAG_ROW ds) (itsCurrentIteration st)) fresh sel env st flag of
        Inl e \<Rightarrow> Inl e
      | Inr (st1, c) \<Rightarrow>
          if itsFlagData st1
          then Inr (st1, c\<lparr>cube_data := replicate (nrow c) (replicate (ncolumn c) (replicate (nplane c) True))\<rparr>)
          else Inr (st1, c))"

subsection \<open>Writing the original flags back\<close>









subsection \<open>The validity tests of the FEED and FIELD subtable handlers\<close>

text \<open>
  The members of \<^verbatim>\<open>FeedSubtableHandler\<close> that its validity test reads. The constructor sets
  the cached spectral window to \<open>- 2\<close> and both times to \<open>0\<close>; \<open>- 1\<close> is the wildcard of the
  \<^verbatim>\<open>SPECTRAL_WINDOW_ID\<close> column. The epoch is given as the \<^verbatim>\<open>Double\<close> that \<^verbatim>\<open>tableTime\<close> returns.
\<close>

record feedHandler =
  feed_itsCachedSpWindow :: int
  feed_itsCachedStartTime :: real
  feed_itsCachedStopTime :: real
  feed_itsAllCachedOffsetsZero :: bool

definition newBeamDetails :: "feedHandler \<Rightarrow> real \<Rightarrow> nat \<Rightarrow> bool" where
  "newBeamDetails h dTime spWinID =
     (if dTime \<ge> feed_itsCachedStartTime h \<and> dTime \<le> feed_itsCachedStopTime h \<and>
         (int_of_uInt spWinID = feed_itsCachedSpWindow h \<or> feed_itsCachedSpWindow h = - 1)
      then False else True)"

text \<open>
  \<^verbatim>\<open>FeedSubtableHandler::fillCacheOnDemand\<close>; the argument \<open>fillCache\<close> is the member function
  that reads the subtable.
\<close>

definition feed_fillCacheOnDemand ::
  "(feedHandler \<Rightarrow> real \<Rightarrow> nat \<Rightarrow> error + feedHandler) \<Rightarrow> feedHandler \<Rightarrow> real \<Rightarrow> nat \<Rightarrow>
   error + feedHandler" where
  "feed_fillCacheOnDemand fillCache h dTime spWinID =
     (if newBeamDetails h dTime spWinID then fillCache h dTime spWinID else Inr h)"

text \<open>
  The members of \<^verbatim>\<open>FieldSubtableHandler\<close> that its validity test reads, the number of rows
  of the subtable, and whether its iterator is past the end.
\<close>

record fieldHandler =
  field_nrow :: nat
  field_iteratorPastEnd :: bool
  itsNeverAccessedFlag :: bool
  field_itsCachedStartTime :: real
  field_itsCachedStopTime :: real

definition newField :: "fieldHandler \<Rightarrow> real \<Rightarrow> bool" where
  "newField h dTime =
     (if itsNeverAccessedFlag h then True
      else if dTime < field_itsCachedStartTime h then True
      else if field_nrow h = 1 then False
      else dTime > field_itsCachedStopTime h)"

text \<open>
  \<^verbatim>\<open>FieldSubtableHandler::fillCacheOnDemand\<close>. The argument \<open>resetAndFill\<close> is
  \<^verbatim>\<open>itsIterator.reset()\<close> followed by \<^verbatim>\<open>fillCacheWithCurrentIteration()\<close>, the argument \<open>fill\<close> is
  the latter alone. The first argument bounds the number of turns of the loop.
\<close>

fun field_advance ::
  "nat \<Rightarrow> (fieldHandler \<Rightarrow> error + fieldHandler) \<Rightarrow> real \<Rightarrow> fieldHandler \<Rightarrow> (error + fieldHandler) option" where
  "field_advance 0 fill dTime h = None"
| "field_advance (Suc n) fill dTime h =
     (if \<not> field_iteratorPastEnd h \<and>
         (dTime < field_itsCachedStartTime h \<or> dTime > field_itsCachedStopTime h)
      then (case fill h of Inl e \<Rightarrow> Some (Inl e) | Inr h' \<Rightarrow> field_advance n fill dTime h')
      else Some (Inr h))"

definition field_fillCacheOnDemand ::
  "nat \<Rightarrow> (fieldHandler \<Rightarrow> error + fieldHandler) \<Rightarrow> (fieldHandler \<Rightarrow> error + fieldHandler) \<Rightarrow>
   fieldHandler \<Rightarrow> real \<Rightarrow> (error + fieldHandler) option" where
  "field_fillCacheOnDemand fuel resetAndFill fill h dTime =
     (case (if dTime < field_itsCachedStartTime h then resetAndFill h else Inr h) of
        Inl e \<Rightarrow> Some (Inl e)
      | Inr h1 \<Rightarrow>
          if dTime < field_itsCachedStartTime h1 then Some (Inl DataAccessError)
          else if field_nrow h1 = 1 \<or>
                  (dTime \<ge> field_itsCachedStartTime h1 \<and> dTime \<le> field_itsCachedStopTime h1)
          then Some (Inr h1)
          else field_advance fuel fill dTime h1)"

subsection \<open>Parallactic angles\<close>

text \<open>
  Modelled from the spec: the body of \<^verbatim>\<open>MemAntennaSubtableHandler::allEquatorial\<close> is not among
  the sources. Its declaration documents it: it "checks the mount type for all antennas to be
  either EQUATORIAL or equatorial".
\<close>

definition allEquatorial :: "string list \<Rightarrow> bool" where
  "allEquatorial mounts = list_all (\<lambda>m. m = ''EQUATORIAL'' \<or> m = ''equatorial'') mounts"

text \<open>
  \<^verbatim>\<open>angles.resize(n)\<close> keeps a vector of length \<open>n\<close>; otherwise the storage is new and \<open>fresh\<close>
  stands for what it holds.
\<close>

definition resizeVector :: "'a \<Rightarrow> nat \<Rightarrow> 'a list \<Rightarrow> 'a list" where
  "resizeVector fresh n v = (if length v = n then v else replicate n fresh)"

text \<open>
  One turn of the loop over the antennas. For an alt-az mount the angle is computed by the
  measures library from the reference direction, the position of the antenna and the epoch:
  the argument \<open>pAngle\<close>.
\<close>

definition parallacticAngleOf :: "string list \<Rightarrow> (nat \<Rightarrow> real) \<Rightarrow> nat \<Rightarrow> real list \<Rightarrow> error + real list" where
  "parallacticAngleOf mounts pAngle ant angles =
     (let antMount = mounts ! ant
      in if antMount = ''ALT-AZ'' \<or> antMount = ''alt-az'' then Inr (angles[ant := pAngle ant])
         else if antMount = ''FIXED'' \<or> antMount = ''fixed'' then Inr (angles[ant := 0])
         else if antMount = ''X-Y'' \<or> antMount = ''x-y'' then Inr (angles[ant := 0])
         else if antMount \<noteq> ''EQUATORIAL'' \<and> antMount \<noteq> ''equatorial''
         then Inl (UnknownMountError antMount ant)
         else Inr angles)"

fun parallacticAngles :: "string list \<Rightarrow> (nat \<Rightarrow> real) \<Rightarrow> nat list \<Rightarrow> real list \<Rightarrow> error + real list" where
  "parallacticAngles mounts pAngle [] angles = Inr angles"
| "parallacticAngles mounts pAngle (ant # ants) angles =
     (case parallacticAngleOf mounts pAngle ant angles of
        Inl e \<Rightarrow> Inl e
      | Inr angles' \<Rightarrow> parallacticAngles mounts pAngle ants angles')"

text \<open>
  \<^verbatim>\<open>fillParallacticAngleCache\<close>. The argument \<open>referenceDir\<close> is the outcome of
  \<^verbatim>\<open>getCurrentReferenceDir()\<close>, which may raise; \<open>pAngle\<close> takes the direction it returns.
\<close>

definition fillParallacticAngleCache ::
  "string list \<Rightarrow> error + 'd \<Rightarrow> ('d \<Rightarrow> nat \<Rightarrow> real) \<Rightarrow> real \<Rightarrow> real list \<Rightarrow> error + real list" where
  "fillParallacticAngleCache mounts referenceDir pAngle fresh angles0 =
     (let angles = resizeVector fresh (length mounts) angles0
      in if allEquatorial mounts then Inr (replicate (length angles) 0)
         else
           (case referenceDir of
              Inl e \<Rightarrow> Inl e
            | Inr antReferenceDir \<Rightarrow>
                parallacticAngles mounts (pAngle antReferenceDir) [0..<length angles] angles))"

subsection \<open>Compositions and sample data\<close>

text \<open>Two calls of \<^verbatim>\<open>init()\<close> in a row.\<close>

definition restartTwice :: "dataset \<Rightarrow> selector \<Rightarrow> collab \<Rightarrow> iter \<Rightarrow> error + iter" where
  "restartTwice ds sel env st =
     (case init ds sel env st of Inl e \<Rightarrow> Inl e | Inr st1 \<Rightarrow> init ds sel env st1)"

text \<open>
  An observation \<open>f\<close> made on the second chunk: the iterator is constructed with the given
  maximum chunk size, which calls \<^verbatim>\<open>init()\<close>, and advanced once.
\<close>

definition atSecondChunk ::
  "dataset \<Rightarrow> selector \<Rightarrow> collab \<Rightarrow> nat \<Rightarrow> (iter \<Rightarrow> error + 'a) \<Rightarrow> error + 'a" where
  "atSecondChunk ds sel env maxChunkSize f =
     (case init ds sel env (constructed maxChunkSize) of
        Inl e \<Rightarrow> Inl e
      | Inr s1 \<Rightarrow> (case next_chunk sel env s1 of Inl e \<Rightarrow> Inl e | Inr s2 \<Rightarrow> f s2))"

text \<open>
  A row with the given time, data description and row flag, whose \<^verbatim>\<open>DATA\<close> and \<^verbatim>\<open>FLAG\<close> cells
  have \<open>nPol \<times> nChan\<close> elements, all visibilities \<open>0\<close> and all flags \<open>flagValue\<close>.
\<close>

definition sampleRow :: "real \<Rightarrow> int \<Rightarrow> bool \<Rightarrow> nat \<Rightarrow> nat \<Rightarrow> bool \<Rightarrow> row" where
  "sampleRow t dd flagRow nPol nChan flagValue =
     \<lparr>TIME = t, DATA_DESC_ID = dd, FIELD_ID = 0, FLAG_ROW = flagRow,
      DATA = \<lparr>arr_shape = [nPol, nChan], arr_data = replicate nPol (replicate nChan 0)\<rparr>,
      FLAG = \<lparr>arr_shape = [nPol, nChan], arr_data = replicate nPol (replicate nChan flagValue)\<rparr>\<rparr>"

text \<open>A dataset with both optional columns, a selector that selects everything.\<close>

definition sampleDataset :: "row list \<Rightarrow> dataset" where
  "sampleDataset rs = \<lparr>ms_rows = rs, ms_has_FIELD_ID = True, ms_has_FLAG_ROW = True\<rparr>"

definition noSelection :: selector where
  "noSelection = \<lparr>getTableSelector = None, itsChannelSelection = (- 1, - 1),
                   frequenciesSelected = False, itsNFreq = 0\<rparr>"

text \<open>
  Collaborators of a dataset with on-axis feeds and equatorial mounts, whose spectral window
  \<open>d\<close> belongs to the data description \<open>d\<close> and has the frequencies \<open>freqs\<close>; the
  frequency asked for by a frequency selection is \<open>f\<close> in the frame of the data.
\<close>

definition sampleCollab :: "real list \<Rightarrow> real \<Rightarrow> collab" where
  "sampleCollab freqs f =
     \<lparr>dd_getSpectralWindowID = (\<lambda>d. d), antenna_allEquatorial = True,
      field_newField = (\<lambda>t. False), feed_newBeamDetails = (\<lambda>t s. False),
      feed_allBeamOffsetsZero = (\<lambda>t s. Some True), spw_getFrequencies = (\<lambda>s. freqs),
      meas_requiredFreq = (\<lambda>t d. Inr f)\<rparr>"

definition emptyCube :: "'a cube" where
  "emptyCube = \<lparr>nrow = 0, ncolumn = 0, nplane = 0, cube_data = []\<rparr>"



text \<open>
  A state positioned on the whole of one group of rows, with the given counts of
  polarisations and channels.
\<close>

definition positioned :: "row list \<Rightarrow> nat \<Rightarrow> nat \<Rightarrow> iter" where
  "positioned rs nPol nChan =
     (constructed 100)\<lparr>itsTabIterator := [rs], itsCurrentIteration := rs, itsNumberOfRows := length rs,
                       itsNumberOfPols := nPol, itsNumberOfChannels := nChan,
                       itsCurrentDataDescID := - 100, itsUseFieldID := True\<rparr>"


section \<open>Properties\<close>

subsection \<open>Grouping and chunk uniformity\<close>

text \<open>The groups of the table iterator are the table, cut into pieces.\<close>

lemma timeGroups_concat: "concat (timeGroups rs) = rs"
  by (induction rs rule: timeGroups.induct) simp_all

lemma scanUniform_bounds:
  "i \<le> n \<Longrightarrow> i \<le> scanUniform col tab topRow cur n i \<and> scanUniform col tab topRow cur n i \<le> n"
proof (induction col tab topRow cur n i rule: scanUniform.induct)
  case (1 col tab topRow cur n i)
  note eq = scanUniform.simps[of col tab topRow cur n i]
  show ?case
  proof (cases "i < n")
    case False
    with "1.prems" eq show ?thesis by simp
  next
    case True
    show ?thesis
    proof (cases "col (tab ! (i + topRow)) \<noteq> cur")
      case True
      with \<open>i < n\<close> eq show ?thesis by simp
    next
      case False
      with \<open>i < n\<close> "1.IH" have "Suc i \<le> scanUniform col tab topRow cur n (Suc i) \<and>
          scanUniform col tab topRow cur n (Suc i) \<le> n" by simp
      with False \<open>i < n\<close> eq show ?thesis by simp
    qed
  qed
qed

lemma scanUniform_uniform:
  "i \<le> j \<Longrightarrow> j < scanUniform col tab topRow cur n i \<Longrightarrow> col (tab ! (j + topRow)) = cur"
proof (induction col tab topRow cur n i rule: scanUniform.induct)
  case (1 col tab topRow cur n i)
  note eq = scanUniform.simps[of col tab topRow cur n i]
  have lt: "i < n"
  proof (rule ccontr)
    assume "\<not> i < n"
    with eq have "scanUniform col tab topRow cur n i = n" by simp
    with "1.prems" \<open>\<not> i < n\<close> show False by simp
  qed
  have same: "col (tab ! (i + topRow)) = cur"
  proof (rule ccontr)
    assume "col (tab ! (i + topRow)) \<noteq> cur"
    with eq lt have "scanUniform col tab topRow cur n i = i" by simp
    with "1.prems" show False by simp
  qed
  from eq lt same have nxt: "scanUniform col tab topRow cur n i = scanUniform col tab topRow cur n (Suc i)"
    by simp
  show ?case
  proof (cases "i = j")
    case True
    with same show ?thesis by simp
  next
    case False
    with "1.prems"(1) have "Suc i \<le> j" by simp
    moreover have "j < scanUniform col tab topRow cur n (Suc i)" using "1.prems"(2) nxt by simp
    ultimately show ?thesis using "1.IH" lt same by simp
  qed
qed

lemma invalidateOnNewBeam_errors:
  "invalidateOnNewBeam env st = Inl e \<Longrightarrow> e = DataAccessError"
  by (auto simp: invalidateOnNewBeam_def currentSpWindowID_def Let_def
           split: if_splits sum.splits option.splits)

lemma invalidateOnNewBeam_keeps:
  "invalidateOnNewBeam env st = Inr st' \<Longrightarrow>
     itsCurrentIteration st' = itsCurrentIteration st \<and> itsCurrentTopRow st' = itsCurrentTopRow st"
  by (auto simp: invalidateOnNewBeam_def currentSpWindowID_def Let_def
           split: if_splits sum.splits option.splits)

lemma newDataDesc_keeps:
  "newDataDesc sel env d st = Inr st' \<Longrightarrow>
     itsCurrentIteration st' = itsCurrentIteration st \<and> itsCurrentTopRow st' = itsCurrentTopRow st \<and>
     itsNumberOfRows st' = itsNumberOfRows st \<and> itsCurrentDataDescID st' = d"
  by (auto simp: newDataDesc_def invalidateOnNewBeam_def currentSpWindowID_def Let_def
           split: if_splits sum.splits option.splits)

text \<open>
  What \<^verbatim>\<open>makeUniformDataDescID\<close> establishes for the chunk it forms: at least one row, no more
  rows than it was given, and the data description of the top row on every row.
\<close>

lemma makeUniformDataDescID_uniform:
  assumes "makeUniformDataDescID sel env st = Inr st'" "0 < itsNumberOfRows st"
  shows "0 < itsNumberOfRows st' \<and> itsNumberOfRows st' \<le> itsNumberOfRows st \<and>
         (\<forall>j < itsNumberOfRows st'.
            DATA_DESC_ID (itsCurrentIteration st' ! (j + itsCurrentTopRow st')) = itsCurrentDataDescID st')"
proof -
  let ?d = "DATA_DESC_ID (itsCurrentIteration st ! itsCurrentTopRow st)"
  obtain st4 where s4: "(if itsCurrentDataDescID st \<noteq> ?d then newDataDesc sel env ?d st else Inr st) = Inr st4"
    using assms(1) by (auto simp: makeUniformDataDescID_def Let_def split: sum.splits)
  then have k: "itsCurrentIteration st4 = itsCurrentIteration st" "itsCurrentTopRow st4 = itsCurrentTopRow st"
      "itsNumberOfRows st4 = itsNumberOfRows st" "itsCurrentDataDescID st4 = ?d"
    by (auto split: if_splits dest: newDataDesc_keeps)
  let ?n = "scanUniform DATA_DESC_ID (itsCurrentIteration st) (itsCurrentTopRow st) ?d (itsNumberOfRows st) 1"
  have r: "itsNumberOfRows st' = ?n" "itsCurrentIteration st' = itsCurrentIteration st"
      "itsCurrentTopRow st' = itsCurrentTopRow st" "itsCurrentDataDescID st' = ?d"
    using assms(1) s4 k by (auto simp: makeUniformDataDescID_def Let_def split: sum.splits if_splits)
  have b: "1 \<le> ?n \<and> ?n \<le> itsNumberOfRows st"
    using scanUniform_bounds[of 1 "itsNumberOfRows st"] assms(2) by simp
  have "DATA_DESC_ID (itsCurrentIteration st ! (j + itsCurrentTopRow st)) = ?d" if "j < ?n" for j
  proof (cases j)
    case 0
    then show ?thesis by simp
  next
    case (Suc m)
    then show ?thesis using scanUniform_uniform[of 1 j] that by simp
  qed
  with r b show ?thesis by auto
qed

text \<open>The same for \<^verbatim>\<open>makeUniformFieldID\<close>, when the field id is tracked.\<close>

lemma makeUniformFieldID_uniform:
  assumes "itsUseFieldID st" "0 < itsNumberOfRows st"
  shows "0 < itsNumberOfRows (makeUniformFieldID st) \<and>
         itsNumberOfRows (makeUniformFieldID st) \<le> itsNumberOfRows st \<and>
         (\<forall>j < itsNumberOfRows (makeUniformFieldID st).
            FIELD_ID (itsCurrentIteration st ! (j + itsCurrentTopRow st))
              = FIELD_ID (itsCurrentIteration st ! itsCurrentTopRow st))"
proof -
  let ?f = "FIELD_ID (itsCurrentIteration st ! itsCurrentTopRow st)"
  let ?n = "scanUniform FIELD_ID (itsCurrentIteration st) (itsCurrentTopRow st) ?f (itsNumberOfRows st) 1"
  have r: "itsNumberOfRows (makeUniformFieldID st) = ?n"
    using assms(1) by (simp add: makeUniformFieldID_def Let_def)
  have b: "1 \<le> ?n \<and> ?n \<le> itsNumberOfRows st"
    using scanUniform_bounds[of 1 "itsNumberOfRows st"] assms(2) by simp
  have "FIELD_ID (itsCurrentIteration st ! (j + itsCurrentTopRow st)) = ?f" if "j < ?n" for j
  proof (cases j)
    case 0
    then show ?thesis by simp
  next
    case (Suc m)
    then show ?thesis using scanUniform_uniform[of 1 j] that by simp
  qed
  with r b show ?thesis by auto
qed

subsection \<open>Delivery of the rows\<close>

text \<open>
  The step off the last time group. When the chunk that ends the last group is not the
  whole group, \<^verbatim>\<open>next()\<close> leaves a state past the end of the table iterator in which
  \<^verbatim>\<open>hasMore()\<close> still holds, and whose chunk is the first rows of that group once more.
\<close>

lemma next_chunk_off_last_group:
  assumes "itsTabIterator st = [g]"
    "itsCurrentTopRow st + itsNumberOfRows st = length (itsCurrentIteration st)"
    "itsNumberOfRows st < length (itsCurrentIteration st)"
  shows "\<exists>st'. next_chunk sel env st = Inr st' \<and> pastEnd st' \<and> hasMore st' \<and>
           currentChunk st' = take (itsNumberOfRows st) (itsCurrentIteration st)"
  using assms by (simp add: next_chunk_def Let_def pastEnd_def hasMore_def currentChunk_def)


text \<open>
  C1. The rows of the chunks delivered from \<^verbatim>\<open>init()\<close> until \<^verbatim>\<open>hasMore()\<close> is false should be
  the selected rows, each once and in table order. The code does not do this when the last
  time group is cut into more than one chunk. The dataset below has one time stamp and two
  rows with the data descriptions \<open>0\<close> and \<open>1\<close>. After the second chunk \<^verbatim>\<open>next()\<close> sets the
  top row to \<open>0\<close> and moves the table iterator past the end, but leaves \<^verbatim>\<open>itsNumberOfRows\<close> (1)
  and \<^verbatim>\<open>itsCurrentIteration\<close> (2 rows) as they were, so the second test of \<^verbatim>\<open>hasMore()\<close>,
  \<open>0 + 1 < 2\<close>, succeeds: a third chunk is delivered, which is the first row again.
\<close>

theorem C1_duplicated_rows_after_exhaustion:
  "iterate 4 (sampleDataset [sampleRow 1 0 False 1 1 False, sampleRow 1 1 False 1 1 False]) noSelection
      (sampleCollab [] 0) (constructed 100)
     = Some (Inr [[sampleRow 1 0 False 1 1 False], [sampleRow 1 1 False 1 1 False],
                  [sampleRow 1 0 False 1 1 False]])
   \<and> selectedRows (sampleDataset [sampleRow 1 0 False 1 1 False, sampleRow 1 1 False 1 1 False]) noSelection
     = [sampleRow 1 0 False 1 1 False, sampleRow 1 1 False 1 1 False]"
  by code_simp

text \<open>
  C2. Every chunk delivered should have one data description on all its rows. The chunk that
  the code delivers after the last time group is exhausted (see C1) is cut at the stale
  \<^verbatim>\<open>itsNumberOfRows\<close> from row \<open>0\<close>, without a pass of \<^verbatim>\<open>makeUniformDataDescID\<close>. For a time
  group with the data descriptions \<open>0, 1, 1\<close> the chunks delivered are the rows \<open>[0, 1)\<close>,
  \<open>[1, 3)\<close> and then \<open>[0, 2)\<close>, which holds the data descriptions \<open>0\<close> and \<open>1\<close>.
\<close>

theorem C2_stale_chunk_not_uniform:
  "map_option (map_sum id (map (map DATA_DESC_ID)))
     (iterate 4 (sampleDataset [sampleRow 1 0 False 1 1 False, sampleRow 1 1 False 1 1 False,
                                sampleRow 1 1 False 1 1 False]) noSelection (sampleCollab [] 0) (constructed 100))
     = Some (Inr [[0], [1, 1], [0, 1]])"
  by code_simp

subsection \<open>Restart\<close>

lemma init_atStart: "init ds sel env st = Inr st' \<Longrightarrow> itsAtStart st'"
  by (auto simp: init_def split: if_splits sum.splits)

lemma init_noop: "itsAtStart st \<Longrightarrow> init ds sel env st = Inr st"
  by (simp add: init_def)

text \<open>
  C3. Two calls of \<^verbatim>\<open>init()\<close> in a row have the outcome of one call: the same state (or the
  same exception), hence the same first chunk. The first call leaves \<^verbatim>\<open>itsAtStart\<close> set, which
  makes the second one return at once.
\<close>

theorem C3_restart_twice:
  "restartTwice ds sel env st = init ds sel env st \<and>
   map_sum id currentChunk (restartTwice ds sel env st) = map_sum id currentChunk (init ds sel env st)"
proof -
  have "restartTwice ds sel env st = init ds sel env st"
  proof (cases "init ds sel env st")
    case (Inl e)
    then show ?thesis by (simp add: restartTwice_def)
  next
    case (Inr st1)
    then have "init ds sel env st1 = Inr st1"
      using init_atStart init_noop by blast
    with Inr show ?thesis by (simp add: restartTwice_def)
  qed
  then show ?thesis by simp
qed

subsection \<open>Channel selection beyond the channels available\<close>

lemma newDataDesc_SelectionError:
  "newDataDesc sel env d st = Inl SelectionError \<longleftrightarrow>
     ((\<exists>st2. invalidateOnNewBeam env (st\<lparr>accSpectralCachesValid := False, itsCurrentDataDescID := d\<rparr>) = Inr st2) \<and>
      shapeValid (arr_shape (DATA (itsCurrentIteration st ! itsCurrentTopRow st))) \<and>
      channelsSelected sel \<and>
      shapeChannels (arr_shape (DATA (itsCurrentIteration st ! itsCurrentTopRow st)))
        < uInt_of_int (fst (getChannelSelection sel) + snd (getChannelSelection sel)))"
proof (cases "invalidateOnNewBeam env (st\<lparr>accSpectralCachesValid := False, itsCurrentDataDescID := d\<rparr>)")
  case (Inl e)
  then show ?thesis
    using invalidateOnNewBeam_errors[OF Inl] by (simp add: newDataDesc_def)
next
  case (Inr st2)
  then show ?thesis
    using invalidateOnNewBeam_keeps[OF Inr]
    by (auto simp: newDataDesc_def Let_def)
qed

text \<open>
  C4. \<^verbatim>\<open>makeUniformDataDescID\<close> raises the selection error exactly when the data description of
  the top row differs from the current one, the beam checks made on that change and the
  assertion on the shape pass, a channel selection is active and it ends beyond the number
  of channels of the top row. Building the selection raises nothing: \<^verbatim>\<open>chooseChannels\<close>
  stores the two numbers as they are, whatever they are.
\<close>

theorem C4_selection_error_on_new_descriptor:
  "(makeUniformDataDescID sel env st = Inl SelectionError \<longleftrightarrow>
      (itsCurrentDataDescID st \<noteq> DATA_DESC_ID (itsCurrentIteration st ! itsCurrentTopRow st) \<and>
       (\<exists>st2. invalidateOnNewBeam env
                 (st\<lparr>accSpectralCachesValid := False,
                     itsCurrentDataDescID := DATA_DESC_ID (itsCurrentIteration st ! itsCurrentTopRow st)\<rparr>) = Inr st2) \<and>
       shapeValid (arr_shape (DATA (itsCurrentIteration st ! itsCurrentTopRow st))) \<and>
       channelsSelected sel \<and>
       shapeChannels (arr_shape (DATA (itsCurrentIteration st ! itsCurrentTopRow st)))
         < uInt_of_int (fst (getChannelSelection sel) + snd (getChannelSelection sel)))) \<and>
   getChannelSelection (chooseChannels nChan start sel0) = (int_of_uInt nChan, int_of_uInt start)"
proof -
  have "makeUniformDataDescID sel env st = Inl SelectionError \<longleftrightarrow>
      (itsCurrentDataDescID st \<noteq> DATA_DESC_ID (itsCurrentIteration st ! itsCurrentTopRow st) \<and>
       newDataDesc sel env (DATA_DESC_ID (itsCurrentIteration st ! itsCurrentTopRow st)) st = Inl SelectionError)"
    by (auto simp: makeUniformDataDescID_def Let_def split: sum.splits if_splits)
  then show ?thesis
    by (simp add: newDataDesc_SelectionError getChannelSelection_def chooseChannels_def)
qed

text \<open>
  Three channels from channel 2 on, selected on data with four channels: the error is raised
  when the first data description is seen, and only then.
\<close>

theorem C4_witness:
  "makeUniformDataDescID (chooseChannels 3 2 noSelection) (sampleCollab [] 0)
     (positioned [sampleRow 1 0 False 2 4 False] 0 0) = Inl SelectionError \<and>
   makeUniformDataDescID (chooseChannels 3 2 noSelection) (sampleCollab [] 0)
     ((positioned [sampleRow 1 0 False 2 4 False] 2 4)\<lparr>itsCurrentDataDescID := 0\<rparr>) \<noteq> Inl SelectionError"
proof -
  let ?sel = "chooseChannels 3 2 noSelection"
  let ?st = "positioned [sampleRow 1 0 False 2 4 False] 0 0"
  let ?st' = "(positioned [sampleRow 1 0 False 2 4 False] 2 4)\<lparr>itsCurrentDataDescID := 0\<rparr>"
  have a: "makeUniformDataDescID ?sel (sampleCollab [] 0) ?st = Inl SelectionError"
    using C4_selection_error_on_new_descriptor [of ?sel "sampleCollab [] 0" ?st]
    by (simp add: positioned_def constructed_def sampleRow_def invalidateOnNewBeam_def shapeValid_def
          shapeChannels_def channelsSelected_def getChannelSelection_def chooseChannels_def
          noSelection_def int_of_uInt_def uInt_of_int_def)
  have b: "makeUniformDataDescID ?sel (sampleCollab [] 0) ?st' \<noteq> Inl SelectionError"
    using C4_selection_error_on_new_descriptor [of ?sel "sampleCollab [] 0" ?st']
    by (simp add: positioned_def constructed_def sampleRow_def)
  from a b show ?thesis by simp
qed

subsection \<open>Frequency selection outside the axis\<close>








subsection \<open>The whole-row flag in the flag cube\<close>

text \<open>
  C6. A row flagged by \<^verbatim>\<open>FLAG_ROW\<close> should have its own row of the flag cube set. The code
  passes the row of the table, \<^verbatim>\<open>row + itsCurrentTopRow\<close>, to \<^verbatim>\<open>copyRequired\<close>, which uses it as
  the row of the cube. In the dataset below the second chunk is the rows 1 and 2 of the
  time group, and row 1 is flagged by \<^verbatim>\<open>FLAG_ROW\<close>. The code sets row 1 of the cube, which the
  copy of table row 2 then overwrites, and never writes row 0 of the cube: the cube
  delivered has no element set, although the first row of the chunk is flagged as a whole.
\<close>

theorem C6_row_flag_written_at_table_row:
  "atSecondChunk (sampleDataset [sampleRow 1 0 False 1 1 False, sampleRow 1 1 True 1 1 False,
                                sampleRow 1 1 False 1 1 False]) noSelection (sampleCollab [] 0) 100
     (\<lambda>s. map_sum id (\<lambda>(s', c). (itsCurrentTopRow s, map FLAG_ROW (currentChunk s), cube_data c))
            (fillFlag (sampleDataset [sampleRow 1 0 False 1 1 False, sampleRow 1 1 True 1 1 False,
                                sampleRow 1 1 False 1 1 False]) False noSelection (sampleCollab [] 0) s emptyCube))
   = Inr (1, [True, False], [[[False]], [[False]]])"
  by code_simp

subsection \<open>The check of the shapes in the cube fillers\<close>

text \<open>
  C9. A shape error should be raised exactly when a row of the chunk has a shape other than
  the one established for the chunk. The code reads the shape of the row \<^verbatim>\<open>row\<close> of the time
  group, not of \<^verbatim>\<open>row + itsCurrentTopRow\<close>. First dataset: the second chunk is the row 1, of
  shape \<open>2 \<times> 8\<close>, and \<open>2 \<times> 8\<close> is what is established for the chunk; the fill raises the error,
  because row 0 has the shape \<open>2 \<times> 4\<close>. Second dataset, with a maximum chunk size of 1: the
  second chunk is the row 1, of shape \<open>2 \<times> 8\<close>, while \<open>2 \<times> 4\<close> is established; the fill raises
  nothing, because row 0 has the shape \<open>2 \<times> 4\<close>.
\<close>

theorem C9_shape_checked_on_other_row:
  "atSecondChunk (sampleDataset [sampleRow 1 0 False 2 4 False, sampleRow 1 1 False 2 8 False]) noSelection
     (sampleCollab [] 0) 100
     (\<lambda>s. Inr (itsCurrentTopRow s, map (arr_shape \<circ> DATA) (currentChunk s), itsNumberOfPols s,
               itsNumberOfChannels s,
               map_sum id (cube_data \<circ> snd) (fillVisibility 0 noSelection (sampleCollab [] 0) s emptyCube)))
     = Inr (1, [[2, 8]], 2, 8, Inl ShapeMismatchError) \<and>
   atSecondChunk (sampleDataset [sampleRow 1 0 False 2 4 False, sampleRow 1 0 False 2 8 False]) noSelection
     (sampleCollab [] 0) 1
     (\<lambda>s. Inr (itsCurrentTopRow s, map (arr_shape \<circ> DATA) (currentChunk s), itsNumberOfPols s,
               itsNumberOfChannels s,
               map_sum id (cube_data \<circ> snd) (fillVisibility 0 noSelection (sampleCollab [] 0) s emptyCube)))
     = Inr (1, [[2, 8]], 2, 4, Inr [[[0, 0], [0, 0], [0, 0], [0, 0]]])"
  by code_simp

subsection \<open>Validity of the cached FEED and FIELD records\<close>

text \<open>
  C7, as amended. The cached FEED record is valid (\<^verbatim>\<open>newBeamDetails\<close> is false, and
  \<^verbatim>\<open>fillCacheOnDemand\<close> does not read the subtable) exactly when the epoch lies in the closed
  interval from the cached start time to the cached stop time and the spectral window is the
  cached one or the cached one is the wildcard. The cached FIELD record is valid (\<^verbatim>\<open>newField\<close>
  is false) exactly when the handler has been accessed before, the epoch is not earlier than
  the cached start time and, unless the subtable has a single row, not later than the cached
  stop time; under the last two conditions \<^verbatim>\<open>fillCacheOnDemand\<close> leaves the handler as it is.
\<close>

theorem C7_cache_valid_on_closed_interval:
  "(newBeamDetails fh dTime spWinID = False \<longleftrightarrow>
      (feed_itsCachedStartTime fh \<le> dTime \<and> dTime \<le> feed_itsCachedStopTime fh \<and>
       (int_of_uInt spWinID = feed_itsCachedSpWindow fh \<or> feed_itsCachedSpWindow fh = - 1))) \<and>
   (newField h dTime = False \<longleftrightarrow>
      (\<not> itsNeverAccessedFlag h \<and> field_itsCachedStartTime h \<le> dTime \<and>
       (field_nrow h = 1 \<or> dTime \<le> field_itsCachedStopTime h))) \<and>
   feed_fillCacheOnDemand fillCache fh dTime spWinID =
      (if newBeamDetails fh dTime spWinID then fillCache fh dTime spWinID else Inr fh) \<and>
   (field_itsCachedStartTime h \<le> dTime \<and> (field_nrow h = 1 \<or> dTime \<le> field_itsCachedStopTime h) \<longrightarrow>
      field_fillCacheOnDemand fuel resetAndFill fill h dTime = Some (Inr h))"
  by (auto simp: newBeamDetails_def newField_def feed_fillCacheOnDemand_def field_fillCacheOnDemand_def)

text \<open>
  A FIELD table of two rows whose cached record runs from 0 to 10, and a FEED record for the
  spectral window 0 over the same interval, both asked at the epoch 10.
\<close>

theorem C7_witness:
  "newBeamDetails \<lparr>feed_itsCachedSpWindow = 0, feed_itsCachedStartTime = 0, feed_itsCachedStopTime = 10,
                    feed_itsAllCachedOffsetsZero = True\<rparr> 10 0 = False \<and>
   newField \<lparr>field_nrow = 2, field_iteratorPastEnd = False, itsNeverAccessedFlag = False,
             field_itsCachedStartTime = 0, field_itsCachedStopTime = 10\<rparr> 10 = False \<and>
   field_fillCacheOnDemand 0 Inr Inr
      \<lparr>field_nrow = 2, field_iteratorPastEnd = False, itsNeverAccessedFlag = False,
        field_itsCachedStartTime = 0, field_itsCachedStopTime = 10\<rparr> 10
     = Some (Inr \<lparr>field_nrow = 2, field_iteratorPastEnd = False, itsNeverAccessedFlag = False,
                  field_itsCachedStartTime = 0, field_itsCachedStopTime = 10\<rparr>)"
  using C7_cache_valid_on_closed_interval
    [of "\<lparr>feed_itsCachedSpWindow = 0, feed_itsCachedStartTime = 0, feed_itsCachedStopTime = 10,
          feed_itsAllCachedOffsetsZero = True\<rparr>" 10 0
        "\<lparr>field_nrow = 2, field_iteratorPastEnd = False, itsNeverAccessedFlag = False,
          field_itsCachedStartTime = 0, field_itsCachedStopTime = 10\<rparr>" "\<lambda>h t s. Inr h" 0 Inr Inr]
  by (simp add: int_of_uInt_def)

text \<open>
  The claim as stated fails at the stop time: the epoch 10 is not in the half-open interval
  from 0 to 10, and the cached FEED record is treated as valid.
\<close>

theorem C7_counterexample:
  "newBeamDetails \<lparr>feed_itsCachedSpWindow = 0, feed_itsCachedStartTime = 0, feed_itsCachedStopTime = 10,
                    feed_itsAllCachedOffsetsZero = True\<rparr> 10 0 = False \<and> \<not> ((10::real) < 10)"
  by (simp add: newBeamDetails_def int_of_uInt_def)

subsection \<open>Consistency of the flags written back\<close>













subsection \<open>Parallactic angles of the mounts\<close>

text \<open>
  C10. In an array that is not all equatorial, the angle of every antenna with a recognised
  mount other than alt-az should be zero. The code assigns zero for the mounts \<^verbatim>\<open>FIXED\<close> and
  \<^verbatim>\<open>X-Y\<close>, and for \<^verbatim>\<open>EQUATORIAL\<close> only skips the exception: the element of the vector is not
  assigned. With an alt-az antenna and an equatorial one, and a vector that holds 5 and 7
  on entry, the angle of the equatorial antenna is 7 on return.
\<close>

theorem C10_equatorial_mount_not_assigned:
  "fillParallacticAngleCache [''ALT-AZ'', ''EQUATORIAL''] (Inr ()) (\<lambda>d ant. 1 / 2) 0 [5, 7] = Inr [1 / 2, 7] \<and>
   fillParallacticAngleCache [''ALT-AZ'', ''FIXED''] (Inr ()) (\<lambda>d ant. 1 / 2) 0 [5, 7] = Inr [1 / 2, 0] \<and>
   fillParallacticAngleCache [''ALT-AZ'', ''DISH''] (Inr ()) (\<lambda>d ant. 1 / 2) 0 [5, 7]
     = Inl (UnknownMountError ''DISH'' 1)"
  by code_simp

end
